theory Spec2Isabelle
  imports Complex_Main
begin

section \<open>The Python runtime the simulators rely on\<close>

text \<open>
  Python floats are modelled as \<^typ>\<open>real\<close> and Python integers as \<^typ>\<open>int\<close>.
  Exceptions are values of \<open>error\<close>. A program over a state \<open>'s\<close> returns either an
  exception or a value, together with the state it leaves behind: a raised exception
  does not undo the assignments made before it.
\<close>

datatype error =
  TunnelNotEstablished
  | ValueError
  | ZeroDivisionError
  | KeyError
  | IndexError
  | StatisticsError

type_synonym ('s, 'a) prog = "'s \<Rightarrow> (error + 'a) \<times> 's"

definition ret :: "'a \<Rightarrow> ('s, 'a) prog" where
  "ret x s = (Inr x, s)"

definition raise :: "error \<Rightarrow> ('s, 'a) prog" where
  "raise e s = (Inl e, s)"

definition and_then :: "('s, 'a) prog \<Rightarrow> ('a \<Rightarrow> ('s, 'b) prog) \<Rightarrow> ('s, 'b) prog" where
  "and_then m f s = (case m s of (Inl e, s') \<Rightarrow> (Inl e, s') | (Inr x, s') \<Rightarrow> f x s')"

definition pure_step :: "error + 'a \<Rightarrow> ('s, 'a) prog" where
  "pure_step r s = (r, s)"

text \<open>
  The world holds the two sources of nondeterminism of the simulators: the random
  generator (\<open>draws\<close> is the sequence of values \<open>random.random()\<close> will return, \<open>drawn\<close>
  how many were consumed) and the wall clock (\<open>now\<close> is the time of the last event,
  \<open>drift\<close> the time that passes before each successive reading of the clock beyond the
  requested sleeps, \<open>reads\<close> the number of readings so far). \<open>random.uniform(a, b)\<close>
  is \<open>a + (b - a) * random()\<close>, as in the standard library; \<open>random.randint(a, b)\<close>
  takes the next draw \<open>u\<close> as well and returns \<open>a + floor (u * (b - a + 1))\<close>.
\<close>

record world =
  draws :: "nat \<Rightarrow> real"
  drawn :: nat
  now :: real
  drift :: "nat \<Rightarrow> real"
  reads :: nat

definition random_random :: "(world, real) prog" where
  "random_random w = (Inr (draws w (drawn w)), w\<lparr>drawn := Suc (drawn w)\<rparr>)"

definition uniform :: "real \<Rightarrow> real \<Rightarrow> (world, real) prog" where
  "uniform a b = and_then random_random (\<lambda>u. ret (a + (b - a) * u))"

definition randint :: "int \<Rightarrow> int \<Rightarrow> (world, int) prog" where
  "randint a b = and_then random_random (\<lambda>u. ret (a + \<lfloor>u * of_int (b - a + 1)\<rfloor>))"

definition time_time :: "(world, real) prog" where
  "time_time w =
     (let t = now w + drift w (reads w)
      in (Inr t, w\<lparr>now := t, reads := Suc (reads w)\<rparr>))"

definition time_sleep :: "real \<Rightarrow> (world, unit) prog" where
  "time_sleep d w = (if d < 0 then (Inl ValueError, w) else (Inr (), w\<lparr>now := now w + d\<rparr>))"

text \<open>
  Key material is never read by a metric. An f-string is kept as the list of its parts
  (\<open>Fmt\<close>) and \<open>hashlib.sha256(f"...".encode()).hexdigest()\<close> as the constructor
  \<open>Sha256\<close> over the parts of its f-string. Console output is not modelled.
\<close>

datatype str = Lit string | Num int | Fmt "str list" | Sha256 "str list"

section \<open>Simulated cryptographic primitives\<close>

subsection \<open>TraditionalCrypto\<close>

definition key_generation :: "int \<Rightarrow> (world, str \<times> str \<times> real \<times> int) prog" where
  "key_generation key_size =
     and_then time_time (\<lambda>start.
     and_then (uniform (5 / 100) (1 / 10)) (\<lambda>d.
     and_then (time_sleep d) (\<lambda>_.
     and_then (randint 1 1000000) (\<lambda>r1.
     and_then (randint 1 1000000) (\<lambda>r2.
     and_then time_time (\<lambda>stop.
     ret (Sha256 [Lit ''private_'', Num r1], Sha256 [Lit ''public_'', Num r2],
          stop - start, key_size div 8)))))))"

definition key_exchange :: "str \<Rightarrow> (world, str \<times> real \<times> int) prog" where
  "key_exchange public_key =
     and_then time_time (\<lambda>start.
     and_then (uniform (2 / 100) (4 / 100)) (\<lambda>d.
     and_then (time_sleep d) (\<lambda>_.
     and_then (randint 1 1000000) (\<lambda>r.
     and_then time_time (\<lambda>stop.
     ret (Sha256 [Lit ''shared_'', public_key, Lit ''_'', Num r], stop - start, 32))))))"

definition encrypt_data :: "str \<Rightarrow> str \<Rightarrow> int \<Rightarrow> (world, str \<times> real) prog" where
  "encrypt_data data key size_kb =
     and_then time_time (\<lambda>start.
     and_then (uniform (5 / 1000) (1 / 100)) (\<lambda>u.
     and_then (time_sleep ((of_int size_kb / 1024) * u)) (\<lambda>_.
     and_then (randint 1 1000000) (\<lambda>r.
     and_then time_time (\<lambda>stop.
     ret (Sha256 [data, key, Num r], stop - start))))))"

subsection \<open>PostQuantumCrypto\<close>

definition kyber_keygen :: "int \<Rightarrow> (world, str \<times> str \<times> real \<times> int) prog" where
  "kyber_keygen level =
     and_then time_time (\<lambda>start.
     and_then (uniform (5 / 10000) (2 / 1000)) (\<lambda>d.
     and_then (time_sleep d) (\<lambda>_.
     (let pk_size = 1184; sk_size = 2400 in
     and_then (randint 1 1000000) (\<lambda>r1.
     and_then (randint 1 1000000) (\<lambda>r2.
     and_then time_time (\<lambda>stop.
     ret (Sha256 [Lit ''kyber_sk_'', Num r1], Sha256 [Lit ''kyber_pk_'', Num r2],
          stop - start, pk_size + sk_size))))))))"

definition kyber_encapsulate :: "str \<Rightarrow> (world, str \<times> real \<times> int) prog" where
  "kyber_encapsulate public_key =
     and_then time_time (\<lambda>start.
     and_then (uniform (5 / 10000) (2 / 1000)) (\<lambda>d.
     and_then (time_sleep d) (\<lambda>_.
     and_then (randint 1 1000000) (\<lambda>r.
     (let ciphertext_size = 1088 in
     and_then time_time (\<lambda>stop.
     ret (Sha256 [Lit ''kyber_shared_'', public_key, Lit ''_'', Num r],
          stop - start, ciphertext_size)))))))"

definition kyber_decapsulate :: "str \<Rightarrow> str \<Rightarrow> (world, str \<times> real) prog" where
  "kyber_decapsulate ciphertext private_key =
     and_then time_time (\<lambda>start.
     and_then (uniform (5 / 10000) (2 / 1000)) (\<lambda>d.
     and_then (time_sleep d) (\<lambda>_.
     and_then time_time (\<lambda>stop.
     ret (Sha256 [Lit ''kyber_decap_'', ciphertext, private_key], stop - start)))))"

definition dilithium_sign :: "str \<Rightarrow> str \<Rightarrow> (world, str \<times> real \<times> int) prog" where
  "dilithium_sign data private_key =
     and_then time_time (\<lambda>start.
     and_then (uniform (5 / 1000) (15 / 1000)) (\<lambda>d.
     and_then (time_sleep d) (\<lambda>_.
     (let signature_size = 3293 in
     and_then time_time (\<lambda>stop.
     ret (Sha256 [Lit ''dilithium_sig_'', data, private_key],
          stop - start, signature_size))))))"

definition dilithium_verify :: "str \<Rightarrow> str \<Rightarrow> str \<Rightarrow> (world, bool \<times> real) prog" where
  "dilithium_verify data signature public_key =
     and_then time_time (\<lambda>start.
     and_then (uniform (2 / 1000) (5 / 1000)) (\<lambda>d.
     and_then (time_sleep d) (\<lambda>_.
     and_then time_time (\<lambda>stop.
     ret (True, stop - start)))))"

section \<open>Metric records and the tunnel\<close>

text \<open>
  \<open>datetime.now().isoformat()\<close> is modelled as a reading of the clock; the record keeps
  the reading instead of its text.
\<close>

record VPNMetrics =
  timestamp :: real
  vpn_type :: string
  keygen_time :: real
  key_exchange_time :: real
  handshake_total_time :: real
  encryption_time :: real
  decryption_time :: real
  key_size :: int
  ciphertext_size :: int
  signature_size :: int
  latency_ms :: real
  throughput_mbps :: real
  packet_loss_percent :: real
  cpu_usage_percent :: real
  memory_mb :: int

text \<open>
  The attribute \<open>crypto\<close> of the tunnel is never read (the primitives are static methods
  called on their classes) and is left out.
\<close>

record VPNTunnel =
  tunnel_type :: string
  packet_size_kb :: int
  established :: bool
  shared_secret :: "str option"

definition VPNTunnel_init :: "string \<Rightarrow> int \<Rightarrow> VPNTunnel" where
  "VPNTunnel_init ttype size_kb =
     \<lparr>tunnel_type = ttype, packet_size_kb = size_kb, established = False,
      shared_secret = None\<rparr>"

text \<open>A method of the tunnel runs on the tunnel object and the world.\<close>

definition on_world :: "(world, 'a) prog \<Rightarrow> (VPNTunnel \<times> world, 'a) prog" where
  "on_world m = (\<lambda>(self, w). case m w of (r, w') \<Rightarrow> (r, (self, w')))"

definition get_self :: "(VPNTunnel \<times> world, VPNTunnel) prog" where
  "get_self = (\<lambda>(self, w). (Inr self, (self, w)))"

definition set_self :: "(VPNTunnel \<Rightarrow> VPNTunnel) \<Rightarrow> (VPNTunnel \<times> world, unit) prog" where
  "set_self f = (\<lambda>(self, w). (Inr (), (f self, w)))"

definition format_key :: "str option \<Rightarrow> str" where
  "format_key k = (case k of None \<Rightarrow> Lit ''None'' | Some s \<Rightarrow> s)"

definition establish_traditional :: "(VPNTunnel \<times> world, VPNMetrics) prog" where
  "establish_traditional =
     and_then (on_world (key_generation 2048)) (\<lambda>(sk, pk, keygen_t, key_sz).
     and_then (on_world (key_exchange pk)) (\<lambda>(secret, kex_time, secret_size).
     and_then (set_self (\<lambda>self. self\<lparr>shared_secret := Some secret\<rparr>)) (\<lambda>_.
     (let handshake_total = keygen_t + kex_time in
     and_then get_self (\<lambda>self.
     and_then (on_world (encrypt_data (Lit ''test_data'') (format_key (shared_secret self))
                           (packet_size_kb self))) (\<lambda>(_, enc_time).
     and_then (on_world (uniform 10 20)) (\<lambda>base_latency.
     and_then (on_world (uniform 2 5)) (\<lambda>overhead_latency.
     (let total_latency = base_latency + overhead_latency in
     and_then (on_world (uniform 80 100)) (\<lambda>throughput.
     and_then (on_world (uniform (1 / 10) (5 / 10))) (\<lambda>packet_loss.
     and_then (on_world (uniform 15 25)) (\<lambda>cpu_usage.
     and_then (on_world (randint 50 80)) (\<lambda>memory.
     and_then (set_self (\<lambda>self. self\<lparr>established := True\<rparr>)) (\<lambda>_.
     and_then get_self (\<lambda>self.
     and_then (on_world time_time) (\<lambda>stamp.
     ret \<lparr>timestamp = stamp,
          vpn_type = ''Traditional'',
          keygen_time = keygen_t,
          key_exchange_time = kex_time,
          handshake_total_time = handshake_total,
          encryption_time = enc_time,
          decryption_time = enc_time * (11 / 10),
          key_size = key_sz,
          ciphertext_size = packet_size_kb self * 1024,
          signature_size = 256,
          latency_ms = total_latency,
          throughput_mbps = throughput,
          packet_loss_percent = packet_loss,
          cpu_usage_percent = cpu_usage,
          memory_mb = memory\<rparr>))))))))))))))))"

definition establish_postquantum :: "(VPNTunnel \<times> world, VPNMetrics) prog" where
  "establish_postquantum =
     and_then (on_world (kyber_keygen 3)) (\<lambda>(sk, pk, keygen_t, key_sz).
     and_then (on_world (kyber_encapsulate pk)) (\<lambda>(secret, encap_time, ct_size).
     and_then (set_self (\<lambda>self. self\<lparr>shared_secret := Some secret\<rparr>)) (\<lambda>_.
     and_then (on_world (kyber_decapsulate (Lit ''ct'') sk)) (\<lambda>(_, decap_time).
     and_then (on_world (dilithium_sign (Lit ''handshake_data'') sk)) (\<lambda>(_, sign_time, sig_size).
     and_then (on_world (dilithium_verify (Lit ''handshake_data'') (Lit ''sig'') pk))
       (\<lambda>(_, verify_time).
     (let handshake_total = keygen_t + encap_time + decap_time + sign_time + verify_time in
     and_then get_self (\<lambda>self.
     and_then (on_world (encrypt_data (Lit ''test_data'') (format_key (shared_secret self))
                           (packet_size_kb self))) (\<lambda>(_, enc_time).
     and_then (on_world (uniform 10 20)) (\<lambda>base_latency.
     and_then (on_world (uniform 5 12)) (\<lambda>overhead_latency.
     (let total_latency = base_latency + overhead_latency in
     and_then (on_world (uniform 65 85)) (\<lambda>throughput.
     and_then (on_world (uniform (2 / 10) (8 / 10))) (\<lambda>packet_loss.
     and_then (on_world (uniform 25 40)) (\<lambda>cpu_usage.
     and_then (on_world (randint 80 120)) (\<lambda>memory.
     and_then (set_self (\<lambda>self. self\<lparr>established := True\<rparr>)) (\<lambda>_.
     and_then (on_world time_time) (\<lambda>stamp.
     ret \<lparr>timestamp = stamp,
          vpn_type = ''PostQuantum'',
          keygen_time = keygen_t,
          key_exchange_time = encap_time + decap_time,
          handshake_total_time = handshake_total,
          encryption_time = enc_time,
          decryption_time = enc_time * (11 / 10),
          key_size = key_sz,
          ciphertext_size = ct_size,
          signature_size = sig_size,
          latency_ms = total_latency,
          throughput_mbps = throughput,
          packet_loss_percent = packet_loss,
          cpu_usage_percent = cpu_usage,
          memory_mb = memory\<rparr>))))))))))))))))))"

definition establish_tunnel :: "(VPNTunnel \<times> world, VPNMetrics) prog" where
  "establish_tunnel =
     and_then (on_world time_time) (\<lambda>stamp.
     and_then get_self (\<lambda>self.
     if tunnel_type self = ''Traditional'' then establish_traditional
     else establish_postquantum))"

record sent =
  size_kb :: int
  encryption_time_ms :: real
  total_time_ms :: real


section \<open>VPNAnalyzer: family averages and overhead\<close>

definition statistics_mean :: "real list \<Rightarrow> error + real" where
  "statistics_mean xs =
     (if xs = [] then Inl StatisticsError else Inr (sum_list xs / real (length xs)))"


text \<open>Python's \<open>a / b\<close> on numbers.\<close>

definition py_div :: "real \<Rightarrow> real \<Rightarrow> error + real" where
  "py_div a b = (if b = 0 then Inl ZeroDivisionError else Inr (a / b))"

text \<open>
  The two helpers nested in \<open>generate_report\<close>; \<open>getattr(m, field)\<close> is the application
  of the field's selector.
\<close>

definition avg :: "VPNMetrics list \<Rightarrow> (VPNMetrics \<Rightarrow> real) \<Rightarrow> error + real" where
  "avg ms field =
     (let vals = map field ms in if vals \<noteq> [] then statistics_mean vals else Inr 0)"


definition traditional_metrics :: "VPNMetrics list \<Rightarrow> VPNMetrics list" where
  "traditional_metrics ms = filter (\<lambda>m. vpn_type m = ''Traditional'') ms"

definition pqc_metrics :: "VPNMetrics list \<Rightarrow> VPNMetrics list" where
  "pqc_metrics ms = filter (\<lambda>m. vpn_type m = ''PostQuantum'') ms"

record family_averages =
  avg_handshake_ms :: real
  avg_latency_ms :: real
  avg_throughput_mbps :: real
  avg_cpu_percent :: real
  avg_memory_mb :: real
  avg_key_size_bytes :: real

record overhead =
  handshake_overhead_percent :: real
  latency_overhead_percent :: real
  throughput_degradation_percent :: real
  cpu_overhead_percent :: real
  memory_overhead_percent :: real
  key_size_increase_percent :: real

record report =
  timestamp :: real
  total_simulations :: nat
  traditional :: family_averages
  postquantum :: family_averages

record full_report = report +
  overhead_analysis :: overhead

text \<open>
  The report is first built without its \<open>overhead_analysis\<close> entry, which is assigned
  afterwards.
  \<open>family_entry\<close> is the dictionary of one family inside the report literal (the same six entries are
  written once for \<open>traditional_metrics\<close> and once for \<open>pqc_metrics\<close>).
\<close>

definition family_entry :: "VPNMetrics list \<Rightarrow> ('s, family_averages) prog" where
  "family_entry ms =
     and_then (pure_step (avg ms handshake_total_time)) (\<lambda>hs.
     and_then (pure_step (avg ms latency_ms)) (\<lambda>lat.
     and_then (pure_step (avg ms throughput_mbps)) (\<lambda>thr.
     and_then (pure_step (avg ms cpu_usage_percent)) (\<lambda>cpu.
     and_then (pure_step (avg ms (\<lambda>m. of_int (memory_mb m)))) (\<lambda>mem.
     and_then (pure_step (avg ms (\<lambda>m. of_int (key_size m)))) (\<lambda>ks.
     ret \<lparr>avg_handshake_ms = hs * 1000,
          avg_latency_ms = lat,
          avg_throughput_mbps = thr,
          avg_cpu_percent = cpu,
          avg_memory_mb = mem,
          avg_key_size_bytes = ks\<rparr>))))))"

definition generate_report :: "VPNMetrics list \<Rightarrow> (world, full_report) prog" where
  "generate_report metrics =
     and_then time_time (\<lambda>stamp.
     and_then (family_entry (traditional_metrics metrics)) (\<lambda>trad.
     and_then (family_entry (pqc_metrics metrics)) (\<lambda>pqc.
     (let rep = \<lparr>timestamp = stamp, total_simulations = length metrics,
                 traditional = trad, postquantum = pqc\<rparr> in
     and_then (pure_step (py_div (avg_handshake_ms (postquantum rep))
                                 (avg_handshake_ms (traditional rep)))) (\<lambda>hs.
     and_then (pure_step (py_div (avg_latency_ms (postquantum rep))
                                 (avg_latency_ms (traditional rep)))) (\<lambda>lat.
     and_then (pure_step (py_div (avg_throughput_mbps (traditional rep))
                                 (avg_throughput_mbps (postquantum rep)))) (\<lambda>thr.
     and_then (pure_step (py_div (avg_cpu_percent (postquantum rep))
                                 (avg_cpu_percent (traditional rep)))) (\<lambda>cpu.
     and_then (pure_step (py_div (avg_memory_mb (postquantum rep))
                                 (avg_memory_mb (traditional rep)))) (\<lambda>mem.
     and_then (pure_step (py_div (avg_key_size_bytes (postquantum rep))
                                 (avg_key_size_bytes (traditional rep)))) (\<lambda>ks.
     ret \<lparr>timestamp = timestamp rep, total_simulations = total_simulations rep,
          traditional = traditional rep, postquantum = postquantum rep,
          overhead_analysis =
            \<lparr>handshake_overhead_percent = (hs - 1) * 100,
             latency_overhead_percent = (lat - 1) * 100,
             throughput_degradation_percent = (thr - 1) * 100,
             cpu_overhead_percent = (cpu - 1) * 100,
             memory_overhead_percent = (mem - 1) * 100,
             key_size_increase_percent = (ks - 1) * 100\<rparr>\<rparr>))))))))))"

text \<open>The overhead ratio in the words of the specification.\<close>

definition spec_overhead_ratio :: "real \<Rightarrow> real \<Rightarrow> real" where
  "spec_overhead_ratio pqc_mean traditional_mean = (pqc_mean / traditional_mean - 1) * 100"

definition arithmetic_mean :: "real list \<Rightarrow> real" where
  "arithmetic_mean xs = sum_list xs / real (length xs)"

section \<open>RemoteAccessVPN: the concurrency load model\<close>

text \<open>
  The values numpy and pandas compute with: a division by zero does not raise there, it
  yields an infinity or NaN. Negative zero is not distinguished from zero.
\<close>

datatype float64 = Finite real | PosInf | NegInf | NaN

fun np_mean :: "real list \<Rightarrow> float64" where
  "np_mean [] = NaN"
| "np_mean (x # xs) = Finite (sum_list (x # xs) / real (length (x # xs)))"

fun np_max :: "real list \<Rightarrow> error + real" where
  "np_max [] = Inl ValueError"
| "np_max (x # xs) = Inr (fold max xs x)"

fun np_min :: "real list \<Rightarrow> error + real" where
  "np_min [] = Inl ValueError"
| "np_min (x # xs) = Inr (fold min xs x)"

text \<open>
  \<open>random.choice\<close> and \<open>random.sample\<close> pick positions below a bound; the position is
  taken from the next draw. \<open>random.sample\<close> follows the pool algorithm of the standard
  library: the element picked is replaced by the last one of the pool, which shrinks.
\<close>

definition randbelow :: "nat \<Rightarrow> (world, nat) prog" where
  "randbelow n = and_then random_random (\<lambda>u. ret (min (n - 1) (nat \<lfloor>u * real n\<rfloor>)))"

definition choice :: "'a list \<Rightarrow> (world, 'a) prog" where
  "choice xs =
     (if xs = [] then raise IndexError
      else and_then (randbelow (length xs)) (\<lambda>i. ret (xs ! i)))"

fun sample_pool :: "'a list \<Rightarrow> nat \<Rightarrow> (world, 'a list) prog" where
  "sample_pool pool 0 = ret []"
| "sample_pool pool (Suc k) =
     and_then (randbelow (length pool)) (\<lambda>j.
     and_then (sample_pool (butlast (pool[j := last pool])) k) (\<lambda>rest.
     ret (pool ! j # rest)))"

definition random_sample :: "'a list \<Rightarrow> int \<Rightarrow> (world, 'a list) prog" where
  "random_sample population k =
     (if k < 0 \<or> int (length population) < k then raise ValueError
      else sample_pool population (nat k))"

text \<open>Dictionaries: \<open>d[k]\<close> and \<open>d.get(k, default)\<close>.\<close>

definition dict_index :: "('k \<rightharpoonup> 'v) \<Rightarrow> 'k \<Rightarrow> error + 'v" where
  "dict_index d k = (case d k of None \<Rightarrow> Inl KeyError | Some v \<Rightarrow> Inr v)"

definition dict_get :: "('k \<rightharpoonup> 'v) \<Rightarrow> 'k \<Rightarrow> 'v \<Rightarrow> 'v" where
  "dict_get d k dflt = (case d k of None \<Rightarrow> dflt | Some v \<Rightarrow> v)"

record user =
  user_id :: str
  distance_km :: int
  connection_type :: string
  bandwidth_mbps :: int

record RemoteAccessVPN =
  num_users :: int
  user_locations :: "user list"

fun generate_user_locations_from :: "nat \<Rightarrow> nat \<Rightarrow> (world, user list) prog" where
  "generate_user_locations_from i 0 = ret []"
| "generate_user_locations_from i (Suc k) =
     and_then (randint 5 1000) (\<lambda>d.
     and_then (choice [''Fiber'', ''Cable'', ''DSL'', ''4G'']) (\<lambda>c.
     and_then (choice [10, 25, 50, 100, 200]) (\<lambda>b.
     and_then (generate_user_locations_from (Suc i) k) (\<lambda>rest.
     ret (\<lparr>user_id = Fmt [Lit ''USER_'', Num (int i)], distance_km = d,
           connection_type = c, bandwidth_mbps = b\<rparr> # rest)))))"

definition generate_user_locations :: "int \<Rightarrow> (world, user list) prog" where
  "generate_user_locations n = generate_user_locations_from 0 (nat n)"

definition RemoteAccessVPN_init :: "int \<Rightarrow> (world, RemoteAccessVPN) prog" where
  "RemoteAccessVPN_init n =
     and_then (generate_user_locations n) (\<lambda>locations.
     ret \<lparr>num_users = n, user_locations = locations\<rparr>)"

definition base_times :: "string \<rightharpoonup> real" where
  "base_times = map_of
     [(''RSA-2048'', 100), (''ECC-P256'', 60), (''Kyber-512'', 150), (''Kyber-768'', 200),
      (''Kyber-1024'', 250), (''Dilithium-2'', 180), (''Dilithium-3'', 220)]"

definition connection_factors :: "string \<rightharpoonup> real" where
  "connection_factors = map_of
     [(''Fiber'', 1), (''Cable'', 12 / 10), (''DSL'', 15 / 10), (''4G'', 18 / 10)]"

definition failure_probability :: "int \<Rightarrow> real" where
  "failure_probability concurrent = min (3 / 10) (of_int concurrent / 500)"

text \<open>
  The loop over the active users, with the three accumulators of the source:
  \<open>connection_times\<close>, \<open>successful_connections\<close> and \<open>failed_connections\<close>.
\<close>

fun connect_users ::
  "real \<Rightarrow> int \<Rightarrow> user list \<Rightarrow> real list \<times> int \<times> int \<Rightarrow> (world, real list \<times> int \<times> int) prog"
where
  "connect_users base_time concurrent [] acc = ret acc"
| "connect_users base_time concurrent (u # rest) (connection_times, successful, failed) =
     (let distance_factor = 1 + of_int (distance_km u) / 1000 in
      and_then (pure_step (dict_index connection_factors (connection_type u))) (\<lambda>conn_factor.
      (let connection_time = base_time * distance_factor * conn_factor in
       and_then random_random (\<lambda>r.
       if r < failure_probability concurrent
       then connect_users base_time concurrent rest
              (connection_times @ [connection_time * 3], successful, failed + 1)
       else connect_users base_time concurrent rest
              (connection_times @ [connection_time], successful + 1, failed)))))"

text \<open>The entry \<open>success_rate_%\<close> of the result is the field \<open>success_rate\<close>.\<close>

record load_metrics =
  crypto_type :: string
  concurrent_users :: int
  avg_connection_time_ms :: float64
  max_connection_time_ms :: real
  min_connection_time_ms :: real
  success_rate :: real
  failed_connections :: int

definition simulate_concurrent_connections ::
  "RemoteAccessVPN \<Rightarrow> string \<Rightarrow> int \<Rightarrow> (world, load_metrics) prog"
where
  "simulate_concurrent_connections self ctype concurrent =
     and_then (random_sample (user_locations self)
                 (min concurrent (int (length (user_locations self))))) (\<lambda>active_users.
     (let base_time = dict_get base_times ctype 150 in
     and_then (connect_users base_time concurrent active_users ([], 0, 0))
       (\<lambda>(connection_times, successful, failed).
     (let mean_time = np_mean connection_times in
     and_then (pure_step (np_max connection_times)) (\<lambda>max_time.
     and_then (pure_step (np_min connection_times)) (\<lambda>min_time.
     and_then (pure_step (py_div (of_int successful) (of_int concurrent))) (\<lambda>rate.
     ret \<lparr>crypto_type = ctype,
          concurrent_users = concurrent,
          avg_connection_time_ms = mean_time,
          max_connection_time_ms = max_time,
          min_connection_time_ms = min_time,
          success_rate = rate * 100,
          failed_connections = failed\<rparr>)))))))"

section \<open>The parameter registry and VPNSimulator\<close>



record CryptoParams =
  key_size :: int
  signature_size :: int
  cpu_cycles :: int
  quantum_resistant :: bool



text \<open>The list \<open>results\<close> of the simulator is never read and is left out.\<close>

record VPNSimulator =
  bandwidth_mbps :: real
  base_latency_ms :: real
  cpu_speed_ghz :: real



record key_exchange_metrics =
  crypto_type :: string
  key_size_bytes :: int
  key_gen_time_ms :: real
  transmission_time_ms :: real
  network_latency_ms :: real
  retransmissions :: nat
  total_time_ms :: real
  quantum_resistant :: bool


section \<open>Analysis of the result table and the recommended algorithm\<close>

text \<open>
  A row of the result table (\<open>vpn_simulation_results.csv\<close>); the table is the list of
  its rows and the label of a row is its position. Column names drop the percent sign.
\<close>

record result_row =
  algorithm :: string
  quantum_resistant :: bool
  key_size_bytes :: real
  key_exchange_time_ms :: real
  throughput_mbps :: real
  encryption_overhead :: real
  avg_cpu_usage :: real
  memory_usage_mb :: real

text \<open>Arithmetic and comparison of numpy floats.\<close>

fun f64_div :: "float64 \<Rightarrow> float64 \<Rightarrow> float64" where
  "f64_div NaN y = NaN"
| "f64_div x NaN = NaN"
| "f64_div (Finite a) (Finite b) =
     (if b \<noteq> 0 then Finite (a / b) else if 0 < a then PosInf else if a < 0 then NegInf else NaN)"
| "f64_div (Finite a) y = Finite 0"
| "f64_div PosInf (Finite b) = (if 0 \<le> b then PosInf else NegInf)"
| "f64_div NegInf (Finite b) = (if 0 \<le> b then NegInf else PosInf)"
| "f64_div x y = NaN"

fun f64_sub :: "float64 \<Rightarrow> float64 \<Rightarrow> float64" where
  "f64_sub NaN y = NaN"
| "f64_sub x NaN = NaN"
| "f64_sub (Finite a) (Finite b) = Finite (a - b)"
| "f64_sub (Finite a) PosInf = NegInf"
| "f64_sub (Finite a) NegInf = PosInf"
| "f64_sub PosInf PosInf = NaN"
| "f64_sub NegInf NegInf = NaN"
| "f64_sub PosInf y = PosInf"
| "f64_sub NegInf y = NegInf"

fun f64_scale :: "float64 \<Rightarrow> real \<Rightarrow> float64" where
  "f64_scale NaN c = NaN"
| "f64_scale (Finite a) c = Finite (a * c)"
| "f64_scale PosInf c = (if 0 < c then PosInf else if c < 0 then NegInf else NaN)"
| "f64_scale NegInf c = (if 0 < c then NegInf else if c < 0 then PosInf else NaN)"

fun f64_less :: "float64 \<Rightarrow> float64 \<Rightarrow> bool" where
  "f64_less NaN y = False"
| "f64_less x NaN = False"
| "f64_less (Finite a) (Finite b) = (a < b)"
| "f64_less x NegInf = False"
| "f64_less NegInf y = True"
| "f64_less PosInf y = False"
| "f64_less x PosInf = True"

text \<open>
  \<open>Series.idxmin()\<close> and \<open>Series.idxmax()\<close>: the position of the first occurrence of the
  least (greatest) value, NaN skipped. \<open>scan better\<close> walks the column from position \<open>i\<close>
  and keeps the best position so far, replacing it only by a strictly better value. On
  an empty or all-NaN column no position exists and the selection raises.
\<close>

fun scan ::
  "(float64 \<Rightarrow> float64 \<Rightarrow> bool) \<Rightarrow> float64 list \<Rightarrow> nat \<Rightarrow> (nat \<times> float64) option
     \<Rightarrow> (nat \<times> float64) option"
where
  "scan better [] i best = best"
| "scan better (v # vs) i best =
     scan better vs (Suc i)
       (if v = NaN then best
        else (case best of
                None \<Rightarrow> Some (i, v)
              | Some (b, bv) \<Rightarrow> if better v bv then Some (i, v) else best))"

definition idxmin :: "float64 list \<Rightarrow> error + nat" where
  "idxmin col = (case scan f64_less col 0 None of None \<Rightarrow> Inl ValueError | Some (i, v) \<Rightarrow> Inr i)"

definition idxmax :: "float64 list \<Rightarrow> error + nat" where
  "idxmax col =
     (case scan (\<lambda>v bv. f64_less bv v) col 0 None of
        None \<Rightarrow> Inl ValueError
      | Some (i, v) \<Rightarrow> Inr i)"

definition traditional_rows :: "result_row list \<Rightarrow> result_row list" where
  "traditional_rows results_df = filter (\<lambda>r. \<not> quantum_resistant r) results_df"

definition pqc_rows :: "result_row list \<Rightarrow> result_row list" where
  "pqc_rows results_df = filter quantum_resistant results_df"

record overhead_row =
  pqc_algorithm :: string
  key_exchange_overhead :: float64
  throughput_reduction :: float64
  cpu_overhead :: float64
  memory_overhead :: float64

definition calculate_overhead :: "result_row list \<Rightarrow> overhead_row list" where
  "calculate_overhead results_df =
     (let trad = traditional_rows results_df;
          trad_avg = (\<lambda>column. np_mean (map column trad))
      in map (\<lambda>pqc_row.
           \<lparr>pqc_algorithm = algorithm pqc_row,
            key_exchange_overhead =
              f64_scale (f64_sub (f64_div (Finite (key_exchange_time_ms pqc_row))
                                          (trad_avg key_exchange_time_ms)) (Finite 1)) 100,
            throughput_reduction =
              f64_scale (f64_sub (f64_div (trad_avg throughput_mbps)
                                          (Finite (throughput_mbps pqc_row))) (Finite 1)) 100,
            cpu_overhead =
              f64_scale (f64_sub (f64_div (Finite (avg_cpu_usage pqc_row))
                                          (trad_avg avg_cpu_usage)) (Finite 1)) 100,
            memory_overhead =
              f64_scale (f64_sub (f64_div (Finite (memory_usage_mb pqc_row))
                                          (trad_avg memory_usage_mb)) (Finite 1)) 100\<rparr>)
           (pqc_rows results_df))"

text \<open>
  The recommendation of \<open>VPNAnalyzer.generate_report\<close>: the row of the overhead table
  with the least throughput reduction. An overhead table without rows has no columns and
  the column access raises \<open>KeyError\<close>.
\<close>

definition report_best_pqc :: "result_row list \<Rightarrow> error + string" where
  "report_best_pqc results_df =
     (let overhead_df = calculate_overhead results_df in
      if overhead_df = [] then Inl KeyError
      else (case idxmin (map throughput_reduction overhead_df) of
              Inl e \<Rightarrow> Inl e
            | Inr best_pqc_idx \<Rightarrow> Inr (pqc_algorithm (overhead_df ! best_pqc_idx))))"

text \<open>
  The recommendation of \<open>generate_executive_summary\<close>: the post-quantum row of the
  greatest throughput. The bare \<open>except\<close> around it swallows every exception, and the
  summary then names no algorithm (\<open>None\<close>).
\<close>

definition summary_best_pqc :: "result_row list \<Rightarrow> result_row option" where
  "summary_best_pqc df =
     (let pqc = pqc_rows df in
      case idxmax (map (\<lambda>r. Finite (throughput_mbps r)) pqc) of
        Inl e \<Rightarrow> None
      | Inr i \<Rightarrow> Some (pqc ! i))"

text \<open>
  Position \<open>k\<close> of a column holds a best value, NaN apart, and every earlier value is
  strictly worse: it is the first occurrence of the best value.
\<close>

definition first_best :: "(float64 \<Rightarrow> float64 \<Rightarrow> bool) \<Rightarrow> float64 list \<Rightarrow> nat \<Rightarrow> bool" where
  "first_best better col k \<longleftrightarrow>
     k < length col \<and> col ! k \<noteq> NaN \<and>
     (\<forall>j<length col. col ! j \<noteq> NaN \<longrightarrow> \<not> better (col ! j) (col ! k)) \<and>
     (\<forall>j<k. col ! j \<noteq> NaN \<longrightarrow> better (col ! k) (col ! j))"

text \<open>The connection time of one attempt in the words of the specification.\<close>

definition spec_connection_time :: "real \<Rightarrow> user \<Rightarrow> real \<Rightarrow> real" where
  "spec_connection_time base_time u link_type_factor =
     base_time * (1 + of_int (distance_km u) / 1000) * link_type_factor"

section \<open>Sample data\<close>

text \<open>
  A world whose draws are all \<open>1/2\<close> and whose clock drifts by a millisecond per reading,
  and one whose draws alternate between \<open>1/10\<close> and \<open>9/10\<close>.
\<close>

definition calm :: world where
  "calm = \<lparr>draws = (\<lambda>_. 1 / 2), drawn = 0, now = 0, drift = (\<lambda>_. 1 / 1000), reads = 0\<rparr>"

definition choppy :: world where
  "choppy = \<lparr>draws = (\<lambda>i. if even i then 1 / 10 else 9 / 10), drawn = 0, now = 0,
              drift = (\<lambda>_. 1 / 1000), reads = 0\<rparr>"

text \<open>The records the two handshakes produce in the calm world with 100 KB packets.\<close>

definition sample_traditional :: VPNMetrics where
  "sample_traditional =
     \<lparr>VPNMetrics.timestamp = 58231 / 512000, vpn_type = ''Traditional'',
      keygen_time = 19 / 250, key_exchange_time = 31 / 1000,
      handshake_total_time = 107 / 1000, encryption_time = 887 / 512000,
      decryption_time = 9757 / 5120000, VPNMetrics.key_size = 256,
      ciphertext_size = 102400, VPNMetrics.signature_size = 256, latency_ms = 37 / 2,
      VPNMetrics.throughput_mbps = 90, packet_loss_percent = 3 / 10,
      cpu_usage_percent = 20, memory_mb = 65\<rparr>"

definition sample_postquantum :: VPNMetrics where
  "sample_postquantum =
     \<lparr>VPNMetrics.timestamp = 131 / 4096, vpn_type = ''PostQuantum'',
      keygen_time = 9 / 4000, key_exchange_time = 9 / 2000,
      handshake_total_time = 89 / 4000, encryption_time = 887 / 512000,
      decryption_time = 9757 / 5120000, VPNMetrics.key_size = 3584,
      ciphertext_size = 1088, VPNMetrics.signature_size = 3293, latency_ms = 47 / 2,
      VPNMetrics.throughput_mbps = 75, packet_loss_percent = 1 / 2,
      cpu_usage_percent = 65 / 2, memory_mb = 100\<rparr>"

definition sample_metrics :: "VPNMetrics list" where
  "sample_metrics = [sample_traditional, sample_postquantum]"

text \<open>The same pair with a traditional session that moved no data.\<close>

definition idle_metrics :: "VPNMetrics list" where
  "idle_metrics = [sample_traditional\<lparr>VPNMetrics.throughput_mbps := 0\<rparr>, sample_postquantum]"

definition small_vpn :: RemoteAccessVPN where
  "small_vpn =
     \<lparr>num_users = 3,
      user_locations =
        [\<lparr>user_id = Fmt [Lit ''USER_'', Num 0], distance_km = 100,
          connection_type = ''Fiber'', user.bandwidth_mbps = 100\<rparr>,
         \<lparr>user_id = Fmt [Lit ''USER_'', Num 1], distance_km = 500,
          connection_type = ''DSL'', user.bandwidth_mbps = 25\<rparr>,
         \<lparr>user_id = Fmt [Lit ''USER_'', Num 2], distance_km = 1000,
          connection_type = ''4G'', user.bandwidth_mbps = 10\<rparr>]\<rparr>"

text \<open>A result table in which two post-quantum rows tie on throughput.\<close>

definition sample_table :: "result_row list" where
  "sample_table =
     [\<lparr>algorithm = ''RSA-2048'', quantum_resistant = False, key_size_bytes = 256,
       key_exchange_time_ms = 11, throughput_mbps = 10, encryption_overhead = 5,
       avg_cpu_usage = 100, memory_usage_mb = 54\<rparr>,
      \<lparr>algorithm = ''Dilithium-2'', quantum_resistant = True, key_size_bytes = 1312,
       key_exchange_time_ms = 10, throughput_mbps = 7, encryption_overhead = 15,
       avg_cpu_usage = 10, memory_usage_mb = 90\<rparr>,
      \<lparr>algorithm = ''Kyber-512'', quantum_resistant = True, key_size_bytes = 800,
       key_exchange_time_ms = 10, throughput_mbps = 8, encryption_overhead = 15,
       avg_cpu_usage = 8, memory_usage_mb = 74\<rparr>,
      \<lparr>algorithm = ''Kyber-768'', quantum_resistant = True, key_size_bytes = 1184,
       key_exchange_time_ms = 10, throughput_mbps = 8, encryption_overhead = 15,
       avg_cpu_usage = 9, memory_usage_mb = 86\<rparr>]"

section \<open>Running programs\<close>

lemma and_then_Inr_iff:
  "and_then m f s = (Inr y, s'') \<longleftrightarrow> (\<exists>x s'. m s = (Inr x, s') \<and> f x s' = (Inr y, s''))"
  by (auto simp: and_then_def split: prod.splits sum.splits)

lemma and_then_Inl_iff:
  "and_then m f s = (Inl e, s'') \<longleftrightarrow>
     m s = (Inl e, s'') \<or> (\<exists>x s'. m s = (Inr x, s') \<and> f x s' = (Inl e, s''))"
  by (auto simp: and_then_def split: prod.splits sum.splits)

lemma ret_iff: "ret x s = (r, st) \<longleftrightarrow> r = Inr x \<and> st = s"
  by (auto simp: ret_def)

lemma raise_iff: "raise e s = (r, st) \<longleftrightarrow> r = Inl e \<and> st = s"
  by (auto simp: raise_def)

lemma pure_step_iff: "pure_step v s = (r, st) \<longleftrightarrow> v = r \<and> st = s"
  by (auto simp: pure_step_def)

lemma on_world_iff:
  "on_world m (self, w) = (r, st) \<longleftrightarrow> (\<exists>w'. m w = (r, w') \<and> st = (self, w'))"
  by (auto simp: on_world_def split: prod.splits)

lemma get_self_iff: "get_self (self, w) = (r, st) \<longleftrightarrow> r = Inr self \<and> st = (self, w)"
  by (auto simp: get_self_def)

lemma set_self_iff: "set_self f (self, w) = (r, st) \<longleftrightarrow> r = Inr () \<and> st = (f self, w)"
  by (auto simp: set_self_def)

lemma random_random_iff:
  "random_random w = (r, w') \<longleftrightarrow>
     r = Inr (draws w (drawn w)) \<and> w' = w\<lparr>drawn := Suc (drawn w)\<rparr>"
  by (auto simp: random_random_def)

lemma time_time_value:
  "time_time w =
     (Inr (now w + drift w (reads w)),
      w\<lparr>now := now w + drift w (reads w), reads := Suc (reads w)\<rparr>)"
  by (simp add: time_time_def Let_def)

lemma time_time_never_raises [simp]: "time_time w \<noteq> (Inl e, w')"
  by (simp add: time_time_def Let_def)

lemma uniform_never_raises [simp]: "uniform a b w \<noteq> (Inl e, w')"
  by (simp add: uniform_def and_then_def random_random_def ret_def)

lemma randint_never_raises [simp]: "randint a b w \<noteq> (Inl e, w')"
  by (simp add: randint_def and_then_def random_random_def ret_def)

lemmas run_simps =
  and_then_Inr_iff and_then_Inl_iff on_world_iff get_self_iff set_self_iff ret_iff raise_iff

lemmas runtime_defs =
  and_then_def ret_def raise_def pure_step_def on_world_def get_self_def set_self_def
  random_random_def uniform_def randint_def time_time_def time_sleep_def format_key_def Let_def

lemmas primitive_defs =
  key_generation_def key_exchange_def encrypt_data_def kyber_keygen_def
  kyber_encapsulate_def kyber_decapsulate_def dilithium_sign_def dilithium_verify_def

section \<open>The handshake\<close>

lemma establish_tunnel_unfold:
  "establish_tunnel (self, w) =
     (if tunnel_type self = ''Traditional'' then establish_traditional (self, snd (time_time w))
      else establish_postquantum (self, snd (time_time w)))"
  by (simp add: establish_tunnel_def and_then_def on_world_def get_self_def time_time_def Let_def)

lemma establish_traditional_phases:
  assumes "establish_traditional (self, w) = (Inr m, (self', w'))"
  shows "\<exists>sk pk kg ks w1 ss kx sz w2 ct enc w3.
           key_generation 2048 w = (Inr (sk, pk, kg, ks), w1) \<and>
           key_exchange pk w1 = (Inr (ss, kx, sz), w2) \<and>
           encrypt_data (Lit ''test_data'') ss (packet_size_kb self) w2 = (Inr (ct, enc), w3) \<and>
           handshake_total_time m = kg + kx \<and> encryption_time m = enc"
  using assms
  apply (simp add: establish_traditional_def run_simps Let_def format_key_def)
  apply (elim exE conjE)
  apply simp
  done

lemma establish_postquantum_phases:
  assumes "establish_postquantum (self, w) = (Inr m, (self', w'))"
  shows "\<exists>sk pk kg ks w1 ss en cs w2 s2 de w3 sg si sz w4 ok ve w5 ct enc w6.
           kyber_keygen 3 w = (Inr (sk, pk, kg, ks), w1) \<and>
           kyber_encapsulate pk w1 = (Inr (ss, en, cs), w2) \<and>
           kyber_decapsulate (Lit ''ct'') sk w2 = (Inr (s2, de), w3) \<and>
           dilithium_sign (Lit ''handshake_data'') sk w3 = (Inr (sg, si, sz), w4) \<and>
           dilithium_verify (Lit ''handshake_data'') (Lit ''sig'') pk w4 = (Inr (ok, ve), w5) \<and>
           encrypt_data (Lit ''test_data'') ss (packet_size_kb self) w5 = (Inr (ct, enc), w6) \<and>
           handshake_total_time m = kg + en + de + si + ve \<and> encryption_time m = enc"
  using assms
  apply (simp add: establish_postquantum_def run_simps Let_def format_key_def)
  apply (elim exE conjE)
  apply simp
  done

lemma establish_traditional_done:
  assumes "establish_traditional (self, w) = (Inr m, (self', w'))"
  shows "decryption_time m = (11 / 10) * encryption_time m \<and> established self'"
  using assms
  apply (simp add: establish_traditional_def run_simps Let_def format_key_def)
  apply (elim exE conjE)
  apply simp
  done

lemma establish_postquantum_done:
  assumes "establish_postquantum (self, w) = (Inr m, (self', w'))"
  shows "decryption_time m = (11 / 10) * encryption_time m \<and> established self'"
  using assms
  apply (simp add: establish_postquantum_def run_simps Let_def format_key_def)
  apply (elim exE conjE)
  apply simp
  done



text \<open>
  A handshake returns a record whenever the packet size and the draws are not negative
  (the draws of \<open>random.random()\<close> never are).
\<close>

lemma establish_traditional_returns:
  assumes "0 \<le> packet_size_kb self" and "\<And>i. 0 \<le> draws w i"
  shows "\<exists>m st. establish_traditional (self, w) = (Inr m, st)"
  using assms(1) assms(2) [of "drawn w"] assms(2) [of "Suc (Suc (Suc (drawn w)))"]
    assms(2) [of "Suc (Suc (Suc (Suc (Suc (drawn w)))))"]
  by (simp add: establish_traditional_def primitive_defs runtime_defs not_less
      mult_less_0_iff)

lemma establish_postquantum_returns:
  assumes "0 \<le> packet_size_kb self" and "\<And>i. 0 \<le> draws w i"
  shows "\<exists>m st. establish_postquantum (self, w) = (Inr m, st)"
  using assms(1) assms(2) [of "drawn w"] assms(2) [of "Suc (Suc (Suc (drawn w)))"]
    assms(2) [of "Suc (Suc (Suc (Suc (Suc (drawn w)))))"]
    assms(2) [of "Suc (Suc (Suc (Suc (Suc (Suc (drawn w))))))"]
    assms(2) [of "Suc (Suc (Suc (Suc (Suc (Suc (Suc (drawn w)))))))"]
    assms(2) [of "Suc (Suc (Suc (Suc (Suc (Suc (Suc (Suc (drawn w))))))))"]
  by (simp add: establish_postquantum_def primitive_defs runtime_defs not_less
      mult_less_0_iff)

lemma establish_tunnel_returns:
  assumes "0 \<le> packet_size_kb self" and "\<And>i. 0 \<le> draws w i"
  shows "\<exists>m st. establish_tunnel (self, w) = (Inr m, st)"
proof -
  have "\<And>i. 0 \<le> draws (snd (time_time w)) i"
    using assms(2) by (simp add: time_time_def Let_def)
  with assms(1)
    establish_traditional_returns [of self "snd (time_time w)"]
    establish_postquantum_returns [of self "snd (time_time w)"]
  show ?thesis by (simp add: establish_tunnel_unfold)
qed

text \<open>The two handshakes in the calm world, and one with a negative packet size.\<close>

lemma calm_traditional:
  "\<exists>m self' w'.
     establish_tunnel (VPNTunnel_init ''Traditional'' 100, calm) = (Inr m, (self', w')) \<and>
     handshake_total_time m = 107 / 1000 \<and> encryption_time m = 887 / 512000 \<and>
     decryption_time m = 9757 / 5120000 \<and> draws w' (drawn w') = 1 / 2"
  by (simp add: establish_tunnel_def establish_traditional_def VPNTunnel_init_def calm_def
      primitive_defs runtime_defs)

lemma calm_postquantum:
  "\<exists>m self' w'.
     establish_tunnel (VPNTunnel_init ''PostQuantum'' 100, calm) = (Inr m, (self', w')) \<and>
     handshake_total_time m = 89 / 4000 \<and> encryption_time m = 887 / 512000 \<and>
     decryption_time m = 9757 / 5120000"
  by (simp add: establish_tunnel_def establish_postquantum_def VPNTunnel_init_def calm_def
      primitive_defs runtime_defs)


text \<open>
  C1. For a session of either family, \<open>handshake_total_time\<close> of the record that
  \<open>establish_tunnel\<close> returns is the sum of the elapsed times of the handshake phases:
  key generation and key exchange for a traditional tunnel; key generation,
  encapsulation, decapsulation, signing and verification for a post-quantum one. The
  elapsed time of the encryption test is recorded as \<open>encryption_time\<close> and is no part of
  the sum.
\<close>

theorem handshake_total_is_sum_of_phases:
  assumes "establish_tunnel (self, w) = (Inr m, (self', w'))"
  shows "(tunnel_type self = ''Traditional'' \<longrightarrow>
           (\<exists>sk pk kg ks w1 ss kx sz w2 ct enc w3.
             key_generation 2048 (snd (time_time w)) = (Inr (sk, pk, kg, ks), w1) \<and>
             key_exchange pk w1 = (Inr (ss, kx, sz), w2) \<and>
             encrypt_data (Lit ''test_data'') ss (packet_size_kb self) w2 = (Inr (ct, enc), w3) \<and>
             handshake_total_time m = kg + kx \<and> encryption_time m = enc))
       \<and> (tunnel_type self \<noteq> ''Traditional'' \<longrightarrow>
           (\<exists>sk pk kg ks w1 ss en cs w2 s2 de w3 sg si sz w4 ok ve w5 ct enc w6.
             kyber_keygen 3 (snd (time_time w)) = (Inr (sk, pk, kg, ks), w1) \<and>
             kyber_encapsulate pk w1 = (Inr (ss, en, cs), w2) \<and>
             kyber_decapsulate (Lit ''ct'') sk w2 = (Inr (s2, de), w3) \<and>
             dilithium_sign (Lit ''handshake_data'') sk w3 = (Inr (sg, si, sz), w4) \<and>
             dilithium_verify (Lit ''handshake_data'') (Lit ''sig'') pk w4 = (Inr (ok, ve), w5) \<and>
             encrypt_data (Lit ''test_data'') ss (packet_size_kb self) w5 = (Inr (ct, enc), w6) \<and>
             handshake_total_time m = kg + en + de + si + ve \<and> encryption_time m = enc))"
proof (cases "tunnel_type self = ''Traditional''")
  case True
  with assms have "establish_traditional (self, snd (time_time w)) = (Inr m, (self', w'))"
    by (simp add: establish_tunnel_unfold)
  from establish_traditional_phases [OF this] True show ?thesis by simp
next
  case False
  with assms have "establish_postquantum (self, snd (time_time w)) = (Inr m, (self', w'))"
    by (simp add: establish_tunnel_unfold)
  from establish_postquantum_phases [OF this] False show ?thesis by simp
qed

text \<open>
  In the calm world the traditional phases take 76 ms and 31 ms and the post-quantum
  ones 2.25 ms, 2.25 ms, 2.25 ms, 11 ms and 4.5 ms; the encryption test takes time as
  well and the total does not contain it.
\<close>

theorem handshake_total_is_sum_of_phases_witness:
  "(\<exists>m self' w'.
      establish_tunnel (VPNTunnel_init ''Traditional'' 100, calm) = (Inr m, (self', w')) \<and>
      handshake_total_time m = 19 / 250 + 31 / 1000 \<and>
      handshake_total_time m \<noteq> 19 / 250 + 31 / 1000 + encryption_time m)
   \<and> (\<exists>m self' w'.
      establish_tunnel (VPNTunnel_init ''PostQuantum'' 100, calm) = (Inr m, (self', w')) \<and>
      handshake_total_time m = 9 / 4000 + 9 / 4000 + 9 / 4000 + 11 / 1000 + 9 / 2000 \<and>
      handshake_total_time m
        \<noteq> 9 / 4000 + 9 / 4000 + 9 / 4000 + 11 / 1000 + 9 / 2000 + encryption_time m)"
proof -
  from calm_traditional obtain m self' w' where
    run: "establish_tunnel (VPNTunnel_init ''Traditional'' 100, calm) = (Inr m, (self', w'))"
    and enc: "encryption_time m = 887 / 512000"
    by auto
  from handshake_total_is_sum_of_phases [OF run]
  have "handshake_total_time m = 19 / 250 + 31 / 1000"
    apply (simp add: VPNTunnel_init_def calm_def primitive_defs runtime_defs)
    apply (elim exE conjE)
    apply linarith
    done
  with run enc have trad: "\<exists>m self' w'.
      establish_tunnel (VPNTunnel_init ''Traditional'' 100, calm) = (Inr m, (self', w')) \<and>
      handshake_total_time m = 19 / 250 + 31 / 1000 \<and>
      handshake_total_time m \<noteq> 19 / 250 + 31 / 1000 + encryption_time m"
    by simp
  from calm_postquantum obtain m self' w' where
    run: "establish_tunnel (VPNTunnel_init ''PostQuantum'' 100, calm) = (Inr m, (self', w'))"
    and enc: "encryption_time m = 887 / 512000"
    by auto
  from handshake_total_is_sum_of_phases [OF run]
  have "handshake_total_time m = 9 / 4000 + 9 / 4000 + 9 / 4000 + 11 / 1000 + 9 / 2000"
    apply (simp add: VPNTunnel_init_def calm_def primitive_defs runtime_defs)
    apply (elim exE conjE)
    apply linarith
    done
  with run enc have "\<exists>m self' w'.
      establish_tunnel (VPNTunnel_init ''PostQuantum'' 100, calm) = (Inr m, (self', w')) \<and>
      handshake_total_time m = 9 / 4000 + 9 / 4000 + 9 / 4000 + 11 / 1000 + 9 / 2000 \<and>
      handshake_total_time m
        \<noteq> 9 / 4000 + 9 / 4000 + 9 / 4000 + 11 / 1000 + 9 / 2000 + encryption_time m"
    by simp
  with trad show ?thesis by blast
qed

text \<open>
  C10. In every record that \<open>establish_tunnel\<close> returns, for either family,
  \<open>decryption_time\<close> is exactly 1.1 times \<open>encryption_time\<close>; no draw enters the relation.
\<close>

theorem decryption_time_is_scaled_encryption_time:
  assumes "establish_tunnel (self, w) = (Inr m, st)"
  shows "decryption_time m = (11 / 10) * encryption_time m"
proof -
  obtain self' w' where st: "st = (self', w')" by (cases st)
  show ?thesis
  proof (cases "tunnel_type self = ''Traditional''")
    case True
    with assms st have "establish_traditional (self, snd (time_time w)) = (Inr m, (self', w'))"
      by (simp add: establish_tunnel_unfold)
    from establish_traditional_done [OF this] show ?thesis by simp
  next
    case False
    with assms st have "establish_postquantum (self, snd (time_time w)) = (Inr m, (self', w'))"
      by (simp add: establish_tunnel_unfold)
    from establish_postquantum_done [OF this] show ?thesis by simp
  qed
qed

theorem decryption_time_is_scaled_encryption_time_witness:
  "(\<exists>m st. establish_tunnel (VPNTunnel_init ''Traditional'' 100, calm) = (Inr m, st) \<and>
      encryption_time m = 887 / 512000 \<and> decryption_time m = (11 / 10) * (887 / 512000))
   \<and> (\<exists>m st. establish_tunnel (VPNTunnel_init ''PostQuantum'' 100, calm) = (Inr m, st) \<and>
      encryption_time m = 887 / 512000 \<and> decryption_time m = (11 / 10) * (887 / 512000))"
proof -
  from calm_traditional obtain m st where
    run: "establish_tunnel (VPNTunnel_init ''Traditional'' 100, calm) = (Inr m, st)"
    and enc: "encryption_time m = 887 / 512000"
    by auto
  from decryption_time_is_scaled_encryption_time [OF run] enc
  have "decryption_time m = (11 / 10) * (887 / 512000)" by simp
  with run enc have trad: "\<exists>m st.
      establish_tunnel (VPNTunnel_init ''Traditional'' 100, calm) = (Inr m, st) \<and>
      encryption_time m = 887 / 512000 \<and> decryption_time m = (11 / 10) * (887 / 512000)"
    by blast
  from calm_postquantum obtain m st where
    run: "establish_tunnel (VPNTunnel_init ''PostQuantum'' 100, calm) = (Inr m, st)"
    and enc: "encryption_time m = 887 / 512000"
    by auto
  from decryption_time_is_scaled_encryption_time [OF run] enc
  have "decryption_time m = (11 / 10) * (887 / 512000)" by simp
  with run enc have "\<exists>m st.
      establish_tunnel (VPNTunnel_init ''PostQuantum'' 100, calm) = (Inr m, st) \<and>
      encryption_time m = 887 / 512000 \<and> decryption_time m = (11 / 10) * (887 / 512000)"
    by blast
  with trad show ?thesis by blast
qed

section \<open>Sending data\<close>







section \<open>Family averages and overhead\<close>

lemma avg_value: "avg ms f = Inr (if ms = [] then 0 else arithmetic_mean (map f ms))"
  by (simp add: avg_def statistics_mean_def arithmetic_mean_def Let_def)

lemma family_entry_value:
  "family_entry ms s =
     (Inr \<lparr>avg_handshake_ms =
             (if ms = [] then 0 else arithmetic_mean (map handshake_total_time ms)) * 1000,
           avg_latency_ms = (if ms = [] then 0 else arithmetic_mean (map latency_ms ms)),
           avg_throughput_mbps =
             (if ms = [] then 0 else arithmetic_mean (map VPNMetrics.throughput_mbps ms)),
           avg_cpu_percent = (if ms = [] then 0 else arithmetic_mean (map cpu_usage_percent ms)),
           avg_memory_mb =
             (if ms = [] then 0 else arithmetic_mean (map (\<lambda>m. of_int (memory_mb m)) ms)),
           avg_key_size_bytes =
             (if ms = [] then 0
              else arithmetic_mean (map (\<lambda>m. of_int (VPNMetrics.key_size m)) ms))\<rparr>, s)"
  by (simp add: family_entry_def and_then_def pure_step_def ret_def avg_value)

lemmas sample_defs =
  sample_metrics_def idle_metrics_def sample_traditional_def sample_postquantum_def
  traditional_metrics_def pqc_metrics_def arithmetic_mean_def

lemmas report_defs =
  generate_report_def and_then_def time_time_value family_entry_value pure_step_def py_div_def
  ret_def Let_def



text \<open>
  C2 (amended). When both families are non-empty and no denominator is zero, the report
  is returned and five of its six ratios are \<open>(postquantum_mean / traditional_mean - 1) *
  100\<close>: handshake time, latency, CPU, memory and key size. The throughput entry,
  \<open>throughput_degradation_percent\<close>, has the opposite orientation: it is
  \<open>(traditional_mean / postquantum_mean - 1) * 100\<close>.
\<close>

theorem overhead_ratios_by_dimension:
  assumes "traditional_metrics metrics \<noteq> []" and "pqc_metrics metrics \<noteq> []"
    and "arithmetic_mean (map handshake_total_time (traditional_metrics metrics)) \<noteq> 0"
    and "arithmetic_mean (map latency_ms (traditional_metrics metrics)) \<noteq> 0"
    and "arithmetic_mean (map VPNMetrics.throughput_mbps (pqc_metrics metrics)) \<noteq> 0"
    and "arithmetic_mean (map cpu_usage_percent (traditional_metrics metrics)) \<noteq> 0"
    and "arithmetic_mean (map (\<lambda>m. of_int (memory_mb m)) (traditional_metrics metrics)) \<noteq> 0"
    and "arithmetic_mean (map (\<lambda>m. of_int (VPNMetrics.key_size m)) (traditional_metrics metrics))
           \<noteq> 0"
  shows "\<exists>r w'. generate_report metrics w = (Inr r, w') \<and>
     handshake_overhead_percent (overhead_analysis r) =
       spec_overhead_ratio
         (arithmetic_mean (map handshake_total_time (pqc_metrics metrics)))
         (arithmetic_mean (map handshake_total_time (traditional_metrics metrics))) \<and>
     latency_overhead_percent (overhead_analysis r) =
       spec_overhead_ratio
         (arithmetic_mean (map latency_ms (pqc_metrics metrics)))
         (arithmetic_mean (map latency_ms (traditional_metrics metrics))) \<and>
     throughput_degradation_percent (overhead_analysis r) =
       spec_overhead_ratio
         (arithmetic_mean (map VPNMetrics.throughput_mbps (traditional_metrics metrics)))
         (arithmetic_mean (map VPNMetrics.throughput_mbps (pqc_metrics metrics))) \<and>
     cpu_overhead_percent (overhead_analysis r) =
       spec_overhead_ratio
         (arithmetic_mean (map cpu_usage_percent (pqc_metrics metrics)))
         (arithmetic_mean (map cpu_usage_percent (traditional_metrics metrics))) \<and>
     memory_overhead_percent (overhead_analysis r) =
       spec_overhead_ratio
         (arithmetic_mean (map (\<lambda>m. of_int (memory_mb m)) (pqc_metrics metrics)))
         (arithmetic_mean (map (\<lambda>m. of_int (memory_mb m)) (traditional_metrics metrics))) \<and>
     key_size_increase_percent (overhead_analysis r) =
       spec_overhead_ratio
         (arithmetic_mean (map (\<lambda>m. of_int (VPNMetrics.key_size m)) (pqc_metrics metrics)))
         (arithmetic_mean (map (\<lambda>m. of_int (VPNMetrics.key_size m))
                            (traditional_metrics metrics)))"
  using assms by (simp add: report_defs spec_overhead_ratio_def)

text \<open>
  On the two sample records the throughput means are 90 (traditional) and 75
  (post-quantum) and the entry is \<open>(90 / 75 - 1) * 100 = 20\<close>.
\<close>

theorem overhead_ratios_by_dimension_witness:
  "traditional_metrics sample_metrics \<noteq> [] \<and> pqc_metrics sample_metrics \<noteq> []
   \<and> (\<exists>r w'. generate_report sample_metrics calm = (Inr r, w') \<and>
         throughput_degradation_percent (overhead_analysis r) = spec_overhead_ratio 90 75 \<and>
         latency_overhead_percent (overhead_analysis r) = spec_overhead_ratio (47 / 2) (37 / 2) \<and>
         key_size_increase_percent (overhead_analysis r) = spec_overhead_ratio 3584 256)"
  using overhead_ratios_by_dimension [of sample_metrics calm]
  apply (simp add: sample_defs)
  apply blast
  done

text \<open>
  The claim as stated fails on the throughput entry: on the sample records the report
  holds 20 there, and the ratio of the claim is \<open>(75 / 90 - 1) * 100\<close>.
\<close>

theorem throughput_orientation_counterexample:
  "\<not> isl (fst (generate_report sample_metrics calm))
   \<and> throughput_degradation_percent
       (overhead_analysis (projr (fst (generate_report sample_metrics calm)))) = 20
   \<and> spec_overhead_ratio
       (arithmetic_mean (map VPNMetrics.throughput_mbps (pqc_metrics sample_metrics)))
       (arithmetic_mean (map VPNMetrics.throughput_mbps (traditional_metrics sample_metrics)))
     = - (50 / 3)"
  by (simp add: report_defs sample_defs spec_overhead_ratio_def calm_def)




section \<open>The load model\<close>

lemma dict_index_Inr_iff: "dict_index d k = Inr v \<longleftrightarrow> d k = Some v"
  by (simp add: dict_index_def split: option.splits)

text \<open>
  The loop appends one time per user, in order; the \<open>i\<close>-th attempt fails when the
  \<open>i\<close>-th draw of the loop is below the failure probability.
\<close>

lemma connect_users_run:
  "connect_users base c us (ts, ok, bad) w = (Inr (ts', ok', bad'), w') \<Longrightarrow>
     \<exists>new. ts' = ts @ new \<and> length new = length us \<and>
       (\<forall>i<length us. \<exists>factor.
          connection_factors (connection_type (us ! i)) = Some factor \<and>
          new ! i = spec_connection_time base (us ! i) factor *
                    (if draws w (drawn w + i) < failure_probability c then 3 else 1)) \<and>
       ok' + bad' = ok + bad + int (length us)"
proof (induction us arbitrary: ts ok bad w)
  case Nil
  then show ?case by (simp add: ret_def)
next
  case (Cons u rest)
  from Cons.prems obtain factor where
    factor: "connection_factors (connection_type u) = Some factor"
    and run: "(if draws w (drawn w) < failure_probability c
         then connect_users base c rest
                (ts @ [base * (1 + real_of_int (distance_km u) / 1000) * factor * 3], ok, bad + 1)
         else connect_users base c rest
                (ts @ [base * (1 + real_of_int (distance_km u) / 1000) * factor], ok + 1, bad))
           (w\<lparr>drawn := Suc (drawn w)\<rparr>) = (Inr (ts', ok', bad'), w')"
    by (auto simp: and_then_Inr_iff pure_step_iff random_random_iff dict_index_Inr_iff Let_def)
  let ?t = "spec_connection_time base u factor *
              (if draws w (drawn w) < failure_probability c then 3 else 1)"
  have rest: "connect_users base c rest
       (ts @ [?t],
        if draws w (drawn w) < failure_probability c then ok else ok + 1,
        if draws w (drawn w) < failure_probability c then bad + 1 else bad)
       (w\<lparr>drawn := Suc (drawn w)\<rparr>) = (Inr (ts', ok', bad'), w')"
    using run
    by (cases "draws w (drawn w) < failure_probability c")
      (simp_all add: spec_connection_time_def)
  from Cons.IH [OF rest] obtain new where
    new: "ts' = (ts @ [?t]) @ new" "length new = length rest"
    and each: "\<forall>i<length rest. \<exists>factor.
          connection_factors (connection_type (rest ! i)) = Some factor \<and>
          new ! i = spec_connection_time base (rest ! i) factor *
                    (if draws w (Suc (drawn w + i)) < failure_probability c then 3 else 1)"
    and count: "ok' + bad' =
        (if draws w (drawn w) < failure_probability c then ok else ok + 1) +
        (if draws w (drawn w) < failure_probability c then bad + 1 else bad) + int (length rest)"
    by auto
  have "\<forall>i<length (u # rest). \<exists>factor.
          connection_factors (connection_type ((u # rest) ! i)) = Some factor \<and>
          (?t # new) ! i = spec_connection_time base ((u # rest) ! i) factor *
                    (if draws w (drawn w + i) < failure_probability c then 3 else 1)"
  proof (intro allI impI)
    fix i assume "i < length (u # rest)"
    then show "\<exists>factor.
          connection_factors (connection_type ((u # rest) ! i)) = Some factor \<and>
          (?t # new) ! i = spec_connection_time base ((u # rest) ! i) factor *
                    (if draws w (drawn w + i) < failure_probability c then 3 else 1)"
      using factor each by (cases i) auto
  qed
  moreover have "ts' = ts @ (?t # new)" using new by simp
  moreover have "length (?t # new) = length (u # rest)" using new by simp
  moreover have "ok' + bad' = ok + bad + int (length (u # rest))" using count by simp
  ultimately show ?case by blast
qed

lemma np_max_Inr: "np_max ts = Inr m \<Longrightarrow> ts \<noteq> [] \<and> m = Max (set ts)"
  by (cases ts) (simp_all add: Max.set_eq_fold [symmetric])

lemma np_min_Inr: "np_min ts = Inr m \<Longrightarrow> ts \<noteq> [] \<and> m = Min (set ts)"
  by (cases ts) (simp_all add: Min.set_eq_fold [symmetric])

lemma np_mean_nonempty: "ts \<noteq> [] \<Longrightarrow> np_mean ts = Finite (arithmetic_mean ts)"
  by (cases ts) (auto simp: arithmetic_mean_def)

lemma simulate_concurrent_connections_returned:
  assumes "simulate_concurrent_connections self ctype n w = (Inr r, w')"
  shows "\<exists>active w1 times ok bad.
       random_sample (user_locations self) (min n (int (length (user_locations self)))) w
         = (Inr active, w1) \<and>
       connect_users (dict_get base_times ctype 150) n active ([], 0, 0) w1
         = (Inr (times, ok, bad), w') \<and>
       length times = length active \<and>
       (\<forall>i<length active. \<exists>factor.
          connection_factors (connection_type (active ! i)) = Some factor \<and>
          times ! i = spec_connection_time (dict_get base_times ctype 150) (active ! i) factor *
                      (if draws w1 (drawn w1 + i) < failure_probability n then 3 else 1)) \<and>
       ok + bad = int (length active) \<and>
       avg_connection_time_ms r = Finite (arithmetic_mean times) \<and>
       max_connection_time_ms r = Max (set times) \<and>
       min_connection_time_ms r = Min (set times) \<and>
       failed_connections r = bad"
proof -
  from assms obtain active w1 times ok bad mx mn rate where
    sample: "random_sample (user_locations self) (min n (int (length (user_locations self)))) w
         = (Inr active, w1)"
    and loop: "connect_users (dict_get base_times ctype 150) n active ([], 0, 0) w1
         = (Inr (times, ok, bad), w')"
    and mx: "np_max times = Inr mx" and mn: "np_min times = Inr mn"
    and r: "r = \<lparr>load_metrics.crypto_type = ctype, concurrent_users = n,
          avg_connection_time_ms = np_mean times,
          max_connection_time_ms = mx, min_connection_time_ms = mn,
          success_rate = rate * 100, failed_connections = bad\<rparr>"
    apply (simp add: simulate_concurrent_connections_def and_then_Inr_iff pure_step_iff ret_iff
        Let_def)
    apply (elim exE conjE)
    apply simp
    done
  from connect_users_run [OF loop] have
    "length times = length active"
    "\<forall>i<length active. \<exists>factor.
          connection_factors (connection_type (active ! i)) = Some factor \<and>
          times ! i = spec_connection_time (dict_get base_times ctype 150) (active ! i) factor *
                      (if draws w1 (drawn w1 + i) < failure_probability n then 3 else 1)"
    "ok + bad = int (length active)"
    by auto
  moreover from np_max_Inr [OF mx] np_min_Inr [OF mn] r have
    "avg_connection_time_ms r = Finite (arithmetic_mean times)"
    "max_connection_time_ms r = Max (set times)" "min_connection_time_ms r = Min (set times)"
    "failed_connections r = bad"
    by (simp_all add: np_mean_nonempty)
  ultimately show ?thesis using sample loop by blast
qed

text \<open>
  The load model returns whenever at least one user is requested, the population is not
  empty and every link type has a factor; the users the constructor generates have such
  link types.
\<close>

lemma sample_pool_returns:
  "k \<le> length pool \<Longrightarrow>
     \<exists>xs w'. sample_pool pool k w = (Inr xs, w') \<and> length xs = k \<and> set xs \<subseteq> set pool"
proof (induction k arbitrary: pool w)
  case 0
  then show ?case by (simp add: ret_def)
next
  case (Suc k)
  let ?j = "min (length pool - 1) (nat \<lfloor>draws w (drawn w) * real (length pool)\<rfloor>)"
  let ?w1 = "w\<lparr>drawn := Suc (drawn w)\<rparr>"
  let ?pool' = "butlast (pool[?j := last pool])"
  from Suc.prems have ne: "pool \<noteq> []" by auto
  have "?j \<le> length pool - 1" by simp
  with ne have j: "?j < length pool" by (cases pool) simp_all
  have below: "randbelow (length pool) w = (Inr ?j, ?w1)"
    by (simp add: randbelow_def and_then_def random_random_def ret_def)
  from Suc.prems have "k \<le> length ?pool'" by simp
  from Suc.IH [OF this, of ?w1] obtain rest w' where
    rest: "sample_pool ?pool' k ?w1 = (Inr rest, w')" "length rest = k" "set rest \<subseteq> set ?pool'"
    by blast
  have "set ?pool' \<subseteq> set (pool[?j := last pool])"
    by (auto dest: in_set_butlastD)
  also have "\<dots> \<subseteq> insert (last pool) (set pool)" by (rule set_update_subset_insert)
  also have "\<dots> = set pool" using ne by auto
  finally have sub: "set ?pool' \<subseteq> set pool" .
  have "sample_pool pool (Suc k) w = (Inr (pool ! ?j # rest), w')"
    using below rest(1) by (simp add: and_then_def ret_def)
  moreover have "length (pool ! ?j # rest) = Suc k" using rest(2) by simp
  moreover have "set (pool ! ?j # rest) \<subseteq> set pool"
    using j rest(3) sub by auto
  ultimately show ?case by blast
qed

lemma connect_users_returns:
  "\<forall>u\<in>set us. connection_type u \<in> dom connection_factors \<Longrightarrow>
     \<exists>ts' ok' bad' w'. connect_users base c us (ts, ok, bad) w = (Inr (ts', ok', bad'), w')"
proof (induction us arbitrary: ts ok bad w)
  case Nil
  then show ?case by (simp add: ret_def)
next
  case (Cons u rest)
  then obtain factor where factor: "connection_factors (connection_type u) = Some factor"
    by auto
  from Cons have known: "\<forall>u\<in>set rest. connection_type u \<in> dom connection_factors" by simp
  show ?case
    using factor Cons.IH [OF known]
    by (simp add: and_then_def pure_step_def dict_index_def random_random_def Let_def)
qed

lemma simulate_concurrent_connections_returns:
  assumes "1 \<le> n" and "user_locations self \<noteq> []"
    and "\<forall>u\<in>set (user_locations self). connection_type u \<in> dom connection_factors"
  shows "\<exists>r w'. simulate_concurrent_connections self ctype n w = (Inr r, w')"
proof -
  let ?k = "min n (int (length (user_locations self)))"
  from assms(1,2) have k: "0 < ?k" "nat ?k \<le> length (user_locations self)" by auto
  from sample_pool_returns [OF k(2), of w] obtain active w1 where
    active: "sample_pool (user_locations self) (nat ?k) w = (Inr active, w1)"
      "length active = nat ?k" "set active \<subseteq> set (user_locations self)"
    by blast
  from assms(1,2) have "\<not> (?k < 0 \<or> int (length (user_locations self)) < ?k)" by auto
  with active(1) have sample: "random_sample (user_locations self) ?k w = (Inr active, w1)"
    unfolding random_sample_def by simp
  from active(3) assms(3)
  have "\<forall>u\<in>set active. connection_type u \<in> dom connection_factors" by blast
  from connect_users_returns [OF this, of "dict_get base_times ctype 150" n "[]" 0 0 w1]
  obtain times ok bad w2 where
    loop: "connect_users (dict_get base_times ctype 150) n active ([], 0, 0) w1
             = (Inr (times, ok, bad), w2)"
    by blast
  from connect_users_run [OF loop] have lt: "length times = length active" by auto
  from assms(1,2) have pos: "0 < nat ?k" by (cases "user_locations self") simp_all
  have "0 < length times" unfolding lt active(2) by (rule pos)
  then have "times \<noteq> []" by auto
  then obtain t ts where times: "times = t # ts" by (cases times) auto
  from assms(1) have "real_of_int n \<noteq> 0" by simp
  then show ?thesis
    using sample loop times
    by (simp add: simulate_concurrent_connections_def and_then_def pure_step_def py_div_def
        ret_def Let_def)
qed

lemma generated_connection_types:
  "generate_user_locations_from i k w = (Inr us, w') \<Longrightarrow>
     \<forall>u\<in>set us. connection_type u \<in> dom connection_factors"
proof (induction k arbitrary: i w us)
  case 0
  then show ?case by (simp add: ret_def)
next
  case (Suc k)
  from Suc.prems obtain d c b rest wa wb wc where
    c: "choice [''Fiber'', ''Cable'', ''DSL'', ''4G''] wa = (Inr c, wb)"
    and rest: "generate_user_locations_from (Suc i) k wc = (Inr rest, w')"
    and us: "us = \<lparr>user_id = Fmt [Lit ''USER_'', Num (int i)], distance_km = d,
                   connection_type = c, user.bandwidth_mbps = b\<rparr> # rest"
    apply (simp add: and_then_Inr_iff ret_iff)
    apply (elim exE conjE)
    apply simp
    done
  from c have "c \<in> set [''Fiber'', ''Cable'', ''DSL'', ''4G'']"
    by (auto simp: choice_def randbelow_def and_then_def random_random_def ret_def min_def
        nth_Cons' split: if_splits)
  then have "c \<in> dom connection_factors" by (auto simp: connection_factors_def)
  with Suc.IH [OF rest] us show ?case by simp
qed

lemma connection_factors_range:
  "connection_factors k = Some v \<Longrightarrow> 1 \<le> v \<and> v \<le> 18 / 10"
  by (auto simp: connection_factors_def split: if_splits)

lemma failure_probability_mono: "a \<le> b \<Longrightarrow> failure_probability a \<le> failure_probability b"
  by (simp add: failure_probability_def min_def)

lemmas load_defs =
  simulate_concurrent_connections_def random_sample_def randbelow_def dict_get_def dict_index_def
  base_times_def connection_factors_def failure_probability_def small_vpn_def
  and_then_def ret_def raise_def pure_step_def random_random_def py_div_def Let_def

text \<open>
  C7. The load model returns for every load of at least one user on a non-empty
  population with known link types. When it returns, it has made one attempt per sampled
  user; the time of an attempt is \<open>base_time * (1 + distance_km / 1000) * link_type_factor\<close>, times 3 when
  the attempt failed, and the mean, maximum and minimum are taken over the times of all
  attempts, failed ones included. The factor of a link type is fixed, least for fiber (1)
  and greatest for 4G (1.8). The failure probability grows with the concurrent load and is
  at most 0.3.
\<close>

theorem load_model_connection_times:
  "(simulate_concurrent_connections self ctype n w = (Inr r, w') \<longrightarrow>
      (\<exists>active w1 times ok bad.
         random_sample (user_locations self) (min n (int (length (user_locations self)))) w
           = (Inr active, w1) \<and>
         connect_users (dict_get base_times ctype 150) n active ([], 0, 0) w1
           = (Inr (times, ok, bad), w') \<and>
         length times = length active \<and>
         (\<forall>i<length active. \<exists>factor.
            connection_factors (connection_type (active ! i)) = Some factor \<and>
            times ! i =
              spec_connection_time (dict_get base_times ctype 150) (active ! i) factor *
              (if draws w1 (drawn w1 + i) < failure_probability n then 3 else 1)) \<and>
         ok + bad = int (length active) \<and>
         avg_connection_time_ms r = Finite (arithmetic_mean times) \<and>
         max_connection_time_ms r = Max (set times) \<and>
         min_connection_time_ms r = Min (set times) \<and>
         failed_connections r = bad))
   \<and> (1 \<le> n \<and> user_locations self \<noteq> [] \<and>
      (\<forall>u\<in>set (user_locations self). connection_type u \<in> dom connection_factors) \<longrightarrow>
      (\<exists>r w'. simulate_concurrent_connections self ctype n w = (Inr r, w')))
   \<and> connection_factors ''Fiber'' = Some 1
   \<and> connection_factors ''4G'' = Some (18 / 10)
   \<and> (\<forall>k v. connection_factors k = Some v \<longrightarrow> 1 \<le> v \<and> v \<le> 18 / 10)
   \<and> (\<forall>a b. a \<le> b \<longrightarrow> failure_probability a \<le> failure_probability b)
   \<and> failure_probability n \<le> 3 / 10"
proof (intro conjI allI impI)
  assume "1 \<le> n \<and> user_locations self \<noteq> [] \<and>
      (\<forall>u\<in>set (user_locations self). connection_type u \<in> dom connection_factors)"
  then show "\<exists>r w'. simulate_concurrent_connections self ctype n w = (Inr r, w')"
    using simulate_concurrent_connections_returns [of n self ctype w] by blast
next
  assume "simulate_concurrent_connections self ctype n w = (Inr r, w')"
  then show "\<exists>active w1 times ok bad.
         random_sample (user_locations self) (min n (int (length (user_locations self)))) w
           = (Inr active, w1) \<and>
         connect_users (dict_get base_times ctype 150) n active ([], 0, 0) w1
           = (Inr (times, ok, bad), w') \<and>
         length times = length active \<and>
         (\<forall>i<length active. \<exists>factor.
            connection_factors (connection_type (active ! i)) = Some factor \<and>
            times ! i =
              spec_connection_time (dict_get base_times ctype 150) (active ! i) factor *
              (if draws w1 (drawn w1 + i) < failure_probability n then 3 else 1)) \<and>
         ok + bad = int (length active) \<and>
         avg_connection_time_ms r = Finite (arithmetic_mean times) \<and>
         max_connection_time_ms r = Max (set times) \<and>
         min_connection_time_ms r = Min (set times) \<and>
         failed_connections r = bad"
    by (rule simulate_concurrent_connections_returned)
qed (auto simp: connection_factors_def failure_probability_def min_def split: if_splits)

text \<open>
  Three users under a load of 100 in the choppy world: the second attempt fails (its
  draw \<open>1/10\<close> is below \<open>1/5\<close>) and its time \<open>200 * 1.5 * 1.5\<close> is tripled and is the
  maximum.
\<close>

theorem load_model_connection_times_witness:
  "(\<exists>r w'. simulate_concurrent_connections small_vpn ''Kyber-768'' 100 choppy = (Inr r, w') \<and>
      avg_connection_time_ms r = Finite ((220 + 3 * 450 + 720) / 3) \<and>
      max_connection_time_ms r = 3 * 450 \<and> min_connection_time_ms r = 220 \<and>
      failed_connections r = 1)
   \<and> user_locations small_vpn \<noteq> []
   \<and> map connection_type (user_locations small_vpn) = [''Fiber'', ''DSL'', ''4G'']
   \<and> connection_factors ''DSL'' = Some (15 / 10)
   \<and> (10 :: int) \<le> 100 \<and> failure_probability 10 \<le> failure_probability 100
   \<and> failure_probability 100 = 1 / 5 \<and> failure_probability 1000 = 3 / 10"
  using load_model_connection_times [of small_vpn "''Kyber-768''" 100 choppy]
  by (simp add: load_defs choppy_def numeral_3_eq_3)

text \<open>
  C8. With \<open>concurrent_users = 0\<close> no user is sampled, the list of connection times is
  empty, and the maximum over it raises \<open>ValueError\<close>: the load model returns no result.
\<close>

theorem zero_concurrent_users_raises:
  "fst (simulate_concurrent_connections self ctype 0 w) = Inl ValueError"
  by (simp add: simulate_concurrent_connections_def random_sample_def and_then_def ret_def
      pure_step_def Let_def)

section \<open>Unknown algorithms\<close>








section \<open>The recommended algorithm\<close>

lemma f64_less_irrefl: "\<not> f64_less a a"
  by (cases a) simp_all

lemma f64_less_trans: "f64_less a b \<Longrightarrow> f64_less b c \<Longrightarrow> f64_less a c"
  by (cases a; cases b; cases c) simp_all

lemma f64_less_total: "a \<noteq> NaN \<Longrightarrow> b \<noteq> NaN \<Longrightarrow> a \<noteq> b \<Longrightarrow> f64_less a b \<or> f64_less b a"
  by (cases a; cases b) auto

text \<open>The scan is a left fold: a value appended to the column is examined last.\<close>

lemma scan_snoc:
  "scan better (xs @ [x]) i best =
     (let r = scan better xs i best in
      if x = NaN then r
      else (case r of
              None \<Rightarrow> Some (i + length xs, x)
            | Some (b, bv) \<Rightarrow> if better x bv then Some (i + length xs, x) else r))"
  by (induction xs arbitrary: i best) (auto simp: Let_def split: option.splits)

lemma scan_first_best:
  assumes irrefl: "\<And>a. \<not> better a a"
    and trans: "\<And>a b c. better a b \<Longrightarrow> better b c \<Longrightarrow> better a c"
    and total: "\<And>a b. a \<noteq> NaN \<Longrightarrow> b \<noteq> NaN \<Longrightarrow> a \<noteq> b \<Longrightarrow> better a b \<or> better b a"
  shows "case scan better col 0 None of
           None \<Rightarrow> \<forall>v\<in>set col. v = NaN
         | Some (k, v) \<Rightarrow> v = col ! k \<and> first_best better col k"
proof (induction col rule: rev_induct)
  case Nil
  then show ?case by simp
next
  case (snoc x xs)
  show ?case
  proof (cases "x = NaN")
    case True
    with snoc show ?thesis
      by (auto simp: scan_snoc first_best_def nth_append split: option.splits)
  next
    case False
    show ?thesis
    proof (cases "scan better xs 0 None")
      case None
      with snoc False show ?thesis
        by (auto simp: scan_snoc first_best_def nth_append irrefl)
    next
      case (Some p)
      obtain k v where p: "p = (k, v)" by (cases p)
      from snoc Some p have v: "v = xs ! k" and fb: "first_best better xs k" by simp_all
      show ?thesis
      proof (cases "better x v")
        case True
        have "first_best better (xs @ [x]) (length xs)"
          unfolding first_best_def
        proof (intro conjI allI impI)
          fix j assume j: "j < length (xs @ [x])" and nn: "(xs @ [x]) ! j \<noteq> NaN"
          show "\<not> better ((xs @ [x]) ! j) ((xs @ [x]) ! length xs)"
          proof (cases "j < length xs")
            case True
            with fb nn have "\<not> better (xs ! j) v" by (simp add: first_best_def nth_append v)
            with \<open>better x v\<close> trans have "\<not> better (xs ! j) x" by blast
            with True show ?thesis by (simp add: nth_append)
          next
            case False
            with j have "j = length xs" by simp
            then show ?thesis by (simp add: irrefl)
          qed
        next
          fix j assume j: "j < length xs" and nn: "(xs @ [x]) ! j \<noteq> NaN"
          then have nn': "xs ! j \<noteq> NaN" by (simp add: nth_append)
          with fb j have nb: "\<not> better (xs ! j) v" by (simp add: first_best_def v)
          from fb have vn: "v \<noteq> NaN" by (simp add: first_best_def v)
          have "better x (xs ! j)"
          proof (cases "xs ! j = v")
            case True
            with \<open>better x v\<close> show ?thesis by simp
          next
            case False
            with total [OF nn' vn] nb have "better v (xs ! j)" by blast
            with \<open>better x v\<close> trans show ?thesis by blast
          qed
          with j show "better ((xs @ [x]) ! length xs) ((xs @ [x]) ! j)" by (simp add: nth_append)
        qed (use False in simp_all)
        with Some p True False show ?thesis by (simp add: scan_snoc)
      next
        case nb: False
        from fb have "first_best better (xs @ [x]) k"
          using nb by (auto simp: first_best_def nth_append v less_Suc_eq)
        with Some p nb False v fb show ?thesis
          by (simp add: scan_snoc first_best_def nth_append)
      qed
    qed
  qed
qed

lemma idxmin_Inr:
  assumes "idxmin col = Inr i"
  shows "first_best f64_less col i"
  using assms scan_first_best [of f64_less col, OF f64_less_irrefl f64_less_trans f64_less_total]
  by (auto simp: idxmin_def split: option.splits)

lemma scan_greatest:
  "case scan (\<lambda>v bv. f64_less bv v) col 0 None of
     None \<Rightarrow> \<forall>v\<in>set col. v = NaN
   | Some (k, v) \<Rightarrow> v = col ! k \<and> first_best (\<lambda>v bv. f64_less bv v) col k"
  by (rule scan_first_best)
    (auto intro: f64_less_trans dest: f64_less_total simp: f64_less_irrefl)

lemma idxmax_Inr:
  assumes "idxmax col = Inr i"
  shows "first_best (\<lambda>v bv. f64_less bv v) col i"
  using assms scan_greatest [of col] by (auto simp: idxmax_def split: option.splits)

lemma idxmax_returns:
  assumes "col \<noteq> []" "\<forall>v\<in>set col. v \<noteq> NaN"
  shows "\<exists>i. idxmax col = Inr i"
  using assms scan_greatest [of col]
  by (cases col) (auto simp: idxmax_def split: option.splits)

lemma calculate_overhead_rows:
  "length (calculate_overhead df) = length (pqc_rows df)"
  "i < length (pqc_rows df) \<Longrightarrow>
     pqc_algorithm (calculate_overhead df ! i) = algorithm (pqc_rows df ! i)"
  by (simp_all add: calculate_overhead_def Let_def)

lemma pqc_rows_resistant:
  "i < length (pqc_rows df) \<Longrightarrow> quantum_resistant (pqc_rows df ! i) \<and> pqc_rows df ! i \<in> set df"
  using nth_mem [of i "pqc_rows df"] by (simp add: pqc_rows_def)

lemma report_best_pqc_Inr:
  assumes "report_best_pqc df = Inr a"
  shows "\<exists>i<length (pqc_rows df).
           a = algorithm (pqc_rows df ! i) \<and> quantum_resistant (pqc_rows df ! i) \<and>
           pqc_rows df ! i \<in> set df \<and>
           first_best f64_less (map throughput_reduction (calculate_overhead df)) i"
proof -
  from assms obtain i where
    i: "idxmin (map throughput_reduction (calculate_overhead df)) = Inr i"
    and a: "a = pqc_algorithm (calculate_overhead df ! i)"
    by (auto simp: report_best_pqc_def Let_def split: if_splits sum.splits)
  from idxmin_Inr [OF i]
  have fb: "first_best f64_less (map throughput_reduction (calculate_overhead df)) i" .
  then have "i < length (pqc_rows df)"
    by (simp add: first_best_def calculate_overhead_rows)
  with a fb pqc_rows_resistant [of i df] calculate_overhead_rows(2) [of i df]
  show ?thesis by auto
qed

lemma summary_best_pqc_Some:
  assumes "summary_best_pqc df = Some row"
  shows "\<exists>i<length (pqc_rows df).
           row = pqc_rows df ! i \<and> quantum_resistant row \<and> row \<in> set df \<and>
           first_best (\<lambda>v bv. f64_less bv v)
             (map (\<lambda>r. Finite (throughput_mbps r)) (pqc_rows df)) i"
proof -
  from assms obtain i where
    i: "idxmax (map (\<lambda>r. Finite (throughput_mbps r)) (pqc_rows df)) = Inr i"
    and row: "row = pqc_rows df ! i"
    by (auto simp: summary_best_pqc_def Let_def split: sum.splits)
  from idxmax_Inr [OF i]
  have fb: "first_best (\<lambda>v bv. f64_less bv v)
              (map (\<lambda>r. Finite (throughput_mbps r)) (pqc_rows df)) i" .
  then have "i < length (pqc_rows df)" by (simp add: first_best_def)
  with row fb pqc_rows_resistant [of i df] show ?thesis by auto
qed

lemma summary_best_pqc_returns:
  assumes "pqc_rows df \<noteq> []"
  shows "summary_best_pqc df \<noteq> None"
proof -
  from assms have "\<exists>i. idxmax (map (\<lambda>r. Finite (throughput_mbps r)) (pqc_rows df)) = Inr i"
    by (intro idxmax_returns) auto
  then show ?thesis by (auto simp: summary_best_pqc_def Let_def)
qed

lemmas table_defs =
  report_best_pqc_def summary_best_pqc_def calculate_overhead_def pqc_rows_def
  traditional_rows_def idxmin_def idxmax_def sample_table_def first_best_def Let_def

text \<open>
  C5. Both recommendations are functions of the ordered table alone (they read neither
  the random source nor the clock), so the same rows in the same order give the same
  algorithm. Each names a quantum-resistant row of the table: the report the first row of
  least throughput reduction, the executive summary the first row of greatest throughput;
  every earlier post-quantum row is strictly worse, so among tied rows the first seen
  wins. The summary names a row whenever the table has a post-quantum row.
\<close>

theorem best_pqc_is_first_best_resistant_row:
  "(report_best_pqc df = Inr a \<longrightarrow>
      (\<exists>i<length (pqc_rows df).
         a = algorithm (pqc_rows df ! i) \<and> quantum_resistant (pqc_rows df ! i) \<and>
         pqc_rows df ! i \<in> set df \<and>
         first_best f64_less (map throughput_reduction (calculate_overhead df)) i))
   \<and> (summary_best_pqc df = Some row \<longrightarrow>
      (\<exists>i<length (pqc_rows df).
         row = pqc_rows df ! i \<and> quantum_resistant row \<and> row \<in> set df \<and>
         first_best (\<lambda>v bv. f64_less bv v)
           (map (\<lambda>r. Finite (throughput_mbps r)) (pqc_rows df)) i))
   \<and> (pqc_rows df \<noteq> [] \<longrightarrow> summary_best_pqc df \<noteq> None)"
  using report_best_pqc_Inr [of df a] summary_best_pqc_Some [of df row]
    summary_best_pqc_returns [of df]
  by blast

text \<open>
  In the sample table Kyber-512 and Kyber-768 tie on throughput (8) and on throughput
  reduction (25); Kyber-512 comes first and is recommended by both.
\<close>

theorem best_pqc_is_first_best_resistant_row_witness:
  "report_best_pqc sample_table = Inr ''Kyber-512''
   \<and> map_option algorithm (summary_best_pqc sample_table) = Some ''Kyber-512''
   \<and> map algorithm (pqc_rows sample_table) = [''Dilithium-2'', ''Kyber-512'', ''Kyber-768'']
   \<and> map throughput_mbps (pqc_rows sample_table) = [7, 8, 8]
   \<and> map throughput_reduction (calculate_overhead sample_table)
       = [Finite (300 / 7), Finite 25, Finite 25]
   \<and> first_best f64_less (map throughput_reduction (calculate_overhead sample_table)) 1
   \<and> pqc_rows sample_table \<noteq> []"
  using best_pqc_is_first_best_resistant_row
    [of sample_table "''Kyber-512''" "sample_table ! 2"]
  by (simp add: table_defs less_Suc_eq numeral_2_eq_2 numeral_3_eq_3)


end
